theory Spec2Isabelle
  imports Main
begin

section \<open>Python values, exceptions and the collaborators\<close>

text \<open>
  The values that reach the server in an argument bag or in a constructor call. Only what
  the code distinguishes is kept: \<open>None\<close>, integers, strings and lists.
\<close>

datatype pyval = PNone | PInt int | PStr string | PList "pyval list"

text \<open>Python truthiness, as used by \<open>if not project\<close>, \<open>if key_file\<close>, \<open>if self.datasets_filter\<close>.\<close>

fun truthy :: "pyval \<Rightarrow> bool" where
  "truthy PNone = False"
| "truthy (PInt n) = (n \<noteq> 0)"
| "truthy (PStr s) = (s \<noteq> [])"
| "truthy (PList xs) = (xs \<noteq> [])"

text \<open>
  Exceptions are values. Every constructor is a subclass of Python's \<open>Exception\<close>, so the
  handler's \<open>except Exception\<close> catches each of them; the string is what \<open>str(e)\<close> gives.
  \<open>BackendError\<close> stands for whatever the warehouse client library raises.
\<close>

datatype exn =
    ValueError string
  | KeyError string
  | TypeError string
  | AttributeError string
  | FileNotFoundError string
  | FileExistsError string
  | IsADirectoryError string
  | NotADirectoryError string
  | BackendError string

fun str_exn :: "exn \<Rightarrow> string" where
  "str_exn (ValueError m) = m"
| "str_exn (KeyError k) = [CHR 0x27] @ k @ [CHR 0x27]"
| "str_exn (TypeError m) = m"
| "str_exn (AttributeError m) = m"
| "str_exn (FileNotFoundError m) = m"
| "str_exn (FileExistsError m) = m"
| "str_exn (IsADirectoryError m) = m"
| "str_exn (NotADirectoryError m) = m"
| "str_exn (BackendError m) = m"

text \<open>
  A query result: the schema (field name, field type) and the rows, each row the list of its
  (column, value) items in column order.
\<close>

type_synonym field = "string \<times> string"
type_synonym row = "(string \<times> pyval) list"

record result_set =
  rs_schema :: "field list"
  rs_rows :: "row list"

text \<open>A \<open>ScalarQueryParameter(name, type, value)\<close>.\<close>

type_synonym qparam = "string \<times> string \<times> string"

text \<open>
  The collaborators, taken as parameters: the warehouse client (\<open>client.query\<close> followed by
  \<open>job.result()\<close>, \<open>client.dataset\<close>, \<open>client.list_datasets\<close>, \<open>client.list_tables\<close>), the
  credential loader, the clock read by \<open>datetime.now().strftime("%Y%m%d_%H%M%S")\<close>, and
  Python's \<open>str()\<close> on objects other than strings.
\<close>

record env =
  client_query :: "pyval \<Rightarrow> qparam list \<Rightarrow> exn + result_set"
  client_dataset :: "pyval \<Rightarrow> exn + string"
  client_list_datasets :: "exn + string list"
  client_list_tables :: "string \<Rightarrow> exn + string list"
  load_credentials :: "pyval \<Rightarrow> string option"
  new_client :: "pyval \<Rightarrow> pyval \<Rightarrow> exn option"
  now_stamp :: string
  py_str :: "pyval \<Rightarrow> string"
  str_rows :: "row list \<Rightarrow> string"
  str_tables :: "string list \<Rightarrow> string"

text \<open>The operations issued to the warehouse client, in the order they were issued.\<close>

datatype event =
    EvQuery pyval "qparam list"
  | EvListDatasets
  | EvListTables string

text \<open>
  The state the handlers act on: the two mutable attributes of the one \<open>BigQueryDatabase\<close>
  object (\<open>datasets_filter\<close>, \<open>last_query_results\<close>), the log of client operations, and the
  file system (existing directories and the CSV files, a file being its list of rows).
  \<open>last_query_results\<close> is \<open>None\<close> or the dict \<open>{"rows": rows, "schema": schema}\<close>; such a
  dict has two keys and is therefore always truthy.
\<close>

record world =
  datasets_filter :: pyval
  last_query_results :: "result_set option"
  calls :: "event list"
  dirs :: "string set"
  files :: "string \<Rightarrow> pyval list list option"

section \<open>Library functions the code calls\<close>

text \<open>The name of a value's type, as error messages print it.\<close>

fun type_name :: "pyval \<Rightarrow> string" where
  "type_name PNone = ''NoneType''"
| "type_name (PInt n) = ''int''"
| "type_name (PStr s) = ''str''"
| "type_name (PList xs) = ''list''"

definition quoted :: "string \<Rightarrow> string" where
  "quoted s = [CHR 0x27] @ s @ [CHR 0x27]"

text \<open>Decimal rendering of a count, as an f-string renders an \<open>int\<close>.\<close>

fun show_nat :: "nat \<Rightarrow> string" where
  "show_nat n =
     (if n < 10 then [char_of (48 + n)]
      else show_nat (n div 10) @ [char_of (48 + n mod 10)])"

declare show_nat.simps [simp del]

text \<open>An f-string field: a string is inserted as it is, anything else through \<open>str()\<close>.\<close>

definition fmt :: "env \<Rightarrow> pyval \<Rightarrow> string" where
  "fmt e v = (case v of PStr s \<Rightarrow> s | _ \<Rightarrow> py_str e v)"

text \<open>\<open>str.split(sep)\<close> for a one-character separator: one more segment than separators.\<close>

fun split_on :: "char \<Rightarrow> string \<Rightarrow> string list" where
  "split_on c [] = [[]]"
| "split_on c (x # xs) =
     (if x = c then [] # split_on c xs
      else (case split_on c xs of [] \<Rightarrow> [[x]] | p # ps \<Rightarrow> (x # p) # ps))"

text \<open>\<open>sep.join(parts)\<close>.\<close>

fun join_with :: "string \<Rightarrow> string list \<Rightarrow> string" where
  "join_with sep [] = []"
| "join_with sep [p] = p"
| "join_with sep (p # q # ps) = p @ sep @ join_with sep (q # ps)"

text \<open>
  \<open>os.path.dirname\<close> (posixpath): everything up to and including the last slash, with the
  trailing slashes removed unless the head consists of slashes only.
\<close>

definition os_path_dirname :: "string \<Rightarrow> string" where
  "os_path_dirname p =
     (let head = rev (dropWhile (\<lambda>c. c \<noteq> CHR ''/'') (rev p))
      in if head = [] then head
         else if list_all (\<lambda>c. c = CHR ''/'') head then head
         else rev (dropWhile (\<lambda>c. c = CHR ''/'') (rev head)))"

text \<open>\<open>os.path.join(a, b)\<close> (posixpath) for two components.\<close>

definition os_path_join :: "string \<Rightarrow> string \<Rightarrow> string" where
  "os_path_join a b =
     (if b \<noteq> [] \<and> hd b = CHR ''/'' then b
      else if a = [] then b
      else if last a = CHR ''/'' then a @ b
      else a @ ''/'' @ b)"

text \<open>
  The file system is modelled on literal path strings. \<open>dir_chain [] p\<close> lists \<open>p\<close> and the
  prefixes of \<open>p\<close> that end before a slash: the directories \<open>os.makedirs(p)\<close> has to find or
  create.
\<close>

fun dir_chain :: "string \<Rightarrow> string \<Rightarrow> string list" where
  "dir_chain acc [] = [acc]"
| "dir_chain acc (c # cs) =
     (if c = CHR ''/'' then acc # dir_chain (acc @ [c]) cs
      else dir_chain (acc @ [c]) cs)"

definition isdir :: "world \<Rightarrow> string \<Rightarrow> bool" where
  "isdir w p =
     (if p = [] then False
      else if list_all (\<lambda>c. c = CHR ''/'') p then True
      else if p = ''.'' then True
      else p \<in> dirs w)"

text \<open>
  \<open>os.makedirs(name, exist_ok=True)\<close>: the empty name is refused with
  \<open>FileNotFoundError\<close> (\<open>mkdir('')\<close> fails and \<open>''\<close> is no directory), a regular file in
  the way is an error, and otherwise every directory on the way exists afterwards.
\<close>

definition os_makedirs :: "string \<Rightarrow> world \<Rightarrow> exn + world" where
  "os_makedirs nm w =
     (if nm = [] then
        Inl (FileNotFoundError (''[Errno 2] No such file or directory: '' @ quoted []))
      else if files w nm \<noteq> None then
        Inl (FileExistsError (''[Errno 17] File exists: '' @ quoted nm))
      else if list_ex (\<lambda>p. files w p \<noteq> None) (dir_chain [] nm) then
        Inl (NotADirectoryError (''[Errno 20] Not a directory: '' @ quoted nm))
      else Inr (w\<lparr>dirs := dirs w \<union> set (filter (\<lambda>p. p \<noteq> []) (dir_chain [] nm))\<rparr>))"

text \<open>
  \<open>open(path, "w", ...)\<close> followed by the writes of the \<open>with\<close> block: the directory that
  holds the file must exist (a path without a slash lies in the working directory), the
  path must not be a directory, and the file then holds exactly the rows written.
\<close>

definition open_write :: "string \<Rightarrow> pyval list list \<Rightarrow> world \<Rightarrow> exn + world" where
  "open_write path content w =
     (if path = [] then
        Inl (FileNotFoundError (''[Errno 2] No such file or directory: '' @ quoted []))
      else if isdir w path \<or> last path = CHR ''/'' then
        Inl (IsADirectoryError (''[Errno 21] Is a directory: '' @ quoted path))
      else if os_path_dirname path = [] \<or> isdir w (os_path_dirname path) then
        Inr (w\<lparr>files := (files w)(path \<mapsto> content)\<rparr>)
      else
        Inl (FileNotFoundError (''[Errno 2] No such file or directory: '' @ quoted path)))"

text \<open>
  \<open>dict(row.items())\<close>: a later item with a key already present replaces the value in
  place, a new key is appended.
\<close>

fun dict_update :: "string \<Rightarrow> pyval \<Rightarrow> row \<Rightarrow> row" where
  "dict_update k v [] = [(k, v)]"
| "dict_update k v ((k', v') # d) =
     (if k' = k then (k, v) # d else (k', v') # dict_update k v d)"

definition dict_of_items :: "row \<Rightarrow> row" where
  "dict_of_items items = foldl (\<lambda>d kv. dict_update (fst kv) (snd kv) d) [] items"

text \<open>
  Binding of positional arguments to a signature whose parameters (after \<open>self\<close>) are all
  required and have no default: too few or too many arguments raise \<open>TypeError\<close> before the
  body runs.
\<close>

fun name_list :: "string list \<Rightarrow> string" where
  "name_list [] = []"
| "name_list [a] = quoted a"
| "name_list [a, b] = quoted a @ '' and '' @ quoted b"
| "name_list ns = join_with '', '' (map quoted (butlast ns)) @ '', and '' @ quoted (last ns)"

definition plural :: "nat \<Rightarrow> string" where
  "plural n = (if n = 1 then [] else ''s'')"

definition bind_positional ::
  "string \<Rightarrow> string list \<Rightarrow> pyval list \<Rightarrow> exn + (string \<times> pyval) list" where
  "bind_positional fname params args =
     (if length args < length params then
        Inl (TypeError (fname @ ''() missing '' @ show_nat (length params - length args)
               @ '' required positional argument'' @ plural (length params - length args)
               @ '': '' @ name_list (drop (length args) params)))
      else if length params < length args then
        Inl (TypeError (fname @ ''() takes '' @ show_nat (Suc (length params))
               @ '' positional argument'' @ plural (Suc (length params))
               @ '' but '' @ show_nat (Suc (length args)) @ '' were given''))
      else Inr (zip params args))"

section \<open>bigqueryOp.py: class BigQueryDatabase\<close>

text \<open>
  \<open>__init__(self, project, location, key_file, datasets_filter)\<close>: four required
  parameters. The body checks project and location, loads the credentials when a key file
  is given, builds the client and initialises the two attributes.
\<close>

definition BigQueryDatabase_init_params :: "string list" where
  "BigQueryDatabase_init_params =
     [''project'', ''location'', ''key_file'', ''datasets_filter'']"

definition BigQueryDatabase_init_body ::
  "env \<Rightarrow> pyval \<Rightarrow> pyval \<Rightarrow> pyval \<Rightarrow> pyval \<Rightarrow> world \<Rightarrow> exn + world" where
  "BigQueryDatabase_init_body e project location key_file dfilter w =
     (if truthy project then
        (if truthy location then
           (case (if truthy key_file then load_credentials e key_file else None) of
              Some m \<Rightarrow> Inl (ValueError (''Invalid key file: '' @ m))
            | None \<Rightarrow>
                (case new_client e project location of
                   Some x \<Rightarrow> Inl x
                 | None \<Rightarrow> Inr (w\<lparr>datasets_filter := dfilter, last_query_results := None\<rparr>)))
         else Inl (ValueError ''Location is required''))
      else Inl (ValueError ''Project is required''))"

definition BigQueryDatabase_init :: "env \<Rightarrow> pyval list \<Rightarrow> world \<Rightarrow> exn + world" where
  "BigQueryDatabase_init e args w =
     (case bind_positional ''BigQueryDatabase.__init__'' BigQueryDatabase_init_params args of
        Inl x \<Rightarrow> Inl x
      | Inr b \<Rightarrow>
          (case map snd b of
             [project, location, key_file, dfilter] \<Rightarrow>
               BigQueryDatabase_init_body e project location key_file dfilter w
           | _ \<Rightarrow> Inl (TypeError ''BigQueryDatabase.__init__()'')))"

text \<open>
  \<open>execute_query(self, query, params=None)\<close>: the query is issued to the client (with a job
  configuration when \<open>params\<close> is non-empty, which the client receives as the parameter
  list); on success the rows become dicts, the cache is replaced by the rows and schema of
  this query, and the rows are returned. A failure is logged and raised again.
\<close>

definition execute_query ::
  "env \<Rightarrow> pyval \<Rightarrow> qparam list \<Rightarrow> world \<Rightarrow> (exn + row list) \<times> world" where
  "execute_query e query params w =
     (let w1 = w\<lparr>calls := calls w @ [EvQuery query params]\<rparr>
      in case client_query e query params of
           Inl x \<Rightarrow> (Inl x, w1)
         | Inr results \<Rightarrow>
             (let rws = map dict_of_items (rs_rows results)
              in (Inr rws,
                  w1\<lparr>last_query_results :=
                        Some \<lparr>rs_schema = rs_schema results, rs_rows = rws\<rparr>\<rparr>)))"

text \<open>\<open>for dataset in self.datasets_filter\<close>: what iterating over the value yields.\<close>

fun py_iter :: "pyval \<Rightarrow> exn + pyval list" where
  "py_iter (PList xs) = Inr xs"
| "py_iter (PStr s) = Inr (map (\<lambda>c. PStr [c]) s)"
| "py_iter v = Inl (TypeError (quoted (type_name v) @ '' object is not iterable''))"

text \<open>The list comprehension \<open>[self.client.dataset(d) for d in ...]\<close>, keeping the dataset ids.\<close>

fun dataset_refs :: "env \<Rightarrow> pyval list \<Rightarrow> exn + string list" where
  "dataset_refs e [] = Inr []"
| "dataset_refs e (d # ds) =
     (case client_dataset e d of
        Inl x \<Rightarrow> Inl x
      | Inr i \<Rightarrow> (case dataset_refs e ds of Inl x \<Rightarrow> Inl x | Inr is \<Rightarrow> Inr (i # is)))"

text \<open>The loop over the datasets of \<open>list_tables\<close>, with the accumulated table names.\<close>

fun list_tables_loop ::
  "env \<Rightarrow> string list \<Rightarrow> string list \<Rightarrow> world \<Rightarrow> (exn + string list) \<times> world" where
  "list_tables_loop e [] tables w = (Inr tables, w)"
| "list_tables_loop e (d # ds) tables w =
     (let w1 = w\<lparr>calls := calls w @ [EvListTables d]\<rparr>
      in case client_list_tables e d of
           Inl x \<Rightarrow> (Inl x, w1)
         | Inr ts \<Rightarrow> list_tables_loop e ds (tables @ map (\<lambda>t. d @ ''.'' @ t) ts) w1)"

text \<open>\<open>list_tables(self)\<close>: no parameter besides \<open>self\<close>.\<close>

definition list_tables_params :: "string list" where
  "list_tables_params = []"

definition list_tables :: "env \<Rightarrow> world \<Rightarrow> (exn + string list) \<times> world" where
  "list_tables e w =
     (if truthy (datasets_filter w) then
        (case py_iter (datasets_filter w) of
           Inl x \<Rightarrow> (Inl x, w)
         | Inr ds \<Rightarrow>
             (case dataset_refs e ds of
                Inl x \<Rightarrow> (Inl x, w)
              | Inr ids \<Rightarrow> list_tables_loop e ids [] w))
      else
        (let w1 = w\<lparr>calls := calls w @ [EvListDatasets]\<rparr>
         in case client_list_datasets e of
              Inl x \<Rightarrow> (Inl x, w1)
            | Inr ids \<Rightarrow> list_tables_loop e ids [] w1))"

text \<open>
  \<open>describe_table(self, table_name)\<close> for a string: split at the dots, refuse any segment
  count other than 2 and 3, otherwise run the DDL query through \<open>execute_query\<close> with the
  last segment as the bound parameter.
\<close>

definition ddl_query :: "string \<Rightarrow> string" where
  "ddl_query dataset_id =
     ''\<newline>            SELECT ddl\<newline>            FROM '' @ dataset_id
     @ ''.INFORMATION_SCHEMA.TABLES\<newline>            WHERE table_name = @table_name;\<newline>        ''"

definition describe_table :: "env \<Rightarrow> string \<Rightarrow> world \<Rightarrow> (exn + row list) \<times> world" where
  "describe_table e table_name w =
     (let parts = split_on CHR ''.'' table_name
      in if length parts = 2 \<or> length parts = 3 then
           execute_query e (PStr (ddl_query (join_with ''.'' (butlast parts))))
             [(''table_name'', ''STRING'', last parts)] w
         else (Inl (ValueError (''Invalid table name: '' @ table_name)), w))"

text \<open>
  The block shared by both CSV writers (lines 151-167 and 186-204): make the directory of
  the path, open the file, write the header row when the schema is non-empty, then one row
  per result row, and count the rows.
\<close>

definition csv_content :: "field list \<Rightarrow> pyval list list \<Rightarrow> pyval list list" where
  "csv_content sch vals = (if sch = [] then vals else map (\<lambda>f. PStr (fst f)) sch # vals)"

definition write_csv ::
  "pyval \<Rightarrow> field list \<Rightarrow> pyval list list \<Rightarrow> world \<Rightarrow> (exn + string) \<times> world" where
  "write_csv file_path sch vals w =
     (case file_path of
        PStr p \<Rightarrow>
          (case os_makedirs (os_path_dirname p) w of
             Inl x \<Rightarrow> (Inl x, w)
           | Inr w1 \<Rightarrow>
               (case open_write p (csv_content sch vals) w1 of
                  Inl x \<Rightarrow> (Inl x, w1)
                | Inr w2 \<Rightarrow>
                    (Inr (''Successfully saved '' @ show_nat (length vals) @ '' rows to '' @ p),
                     w2)))
      | _ \<Rightarrow>
          (Inl (TypeError (''expected str, bytes or os.PathLike object, not ''
                  @ type_name file_path)), w))"

text \<open>
  \<open>save_query_to_csv_file(self, query, file_path, params=None)\<close>: runs the query itself
  (it does not go through \<open>execute_query\<close>) and streams the result into the file.
\<close>

definition save_query_to_csv_file ::
  "env \<Rightarrow> pyval \<Rightarrow> pyval \<Rightarrow> world \<Rightarrow> (exn + string) \<times> world" where
  "save_query_to_csv_file e query file_path w =
     (let w1 = w\<lparr>calls := calls w @ [EvQuery query []]\<rparr>
      in case client_query e query [] of
           Inl x \<Rightarrow> (Inl x, w1)
         | Inr results \<Rightarrow>
             write_csv file_path (rs_schema results) (map (map snd) (rs_rows results)) w1)"

text \<open>\<open>save_last_results_to_csv_file(self, file_path)\<close>.\<close>

definition save_last_results_to_csv_file ::
  "pyval \<Rightarrow> world \<Rightarrow> (exn + string) \<times> world" where
  "save_last_results_to_csv_file file_path w =
     (case last_query_results w of
        None \<Rightarrow>
          (Inl (ValueError ''No previous query results available. Execute a query first.''), w)
      | Some c \<Rightarrow> write_csv file_path (rs_schema c) (map (map snd) (rs_rows c)) w)"

text \<open>\<open>generate_csv_filename(self, base_name)\<close>.\<close>

definition generate_csv_filename :: "env \<Rightarrow> pyval \<Rightarrow> string" where
  "generate_csv_filename e base_name = fmt e base_name @ ''_'' @ now_stamp e @ ''.csv''"

section \<open>server.py\<close>

subsection \<open>The tool catalog\<close>

text \<open>
  A \<open>types.Tool\<close>: name, description and input schema. A schema has its properties (name,
  type, description) and the list under \<open>"required"\<close>, which the schema of \<open>list-tables\<close>
  does not have.
\<close>

record input_schema =
  schema_type :: string
  properties :: "(string \<times> string \<times> string) list"
  required :: "string list option"

record tool =
  tool_name :: string
  tool_description :: string
  inputSchema :: input_schema

definition handle_list_tools :: "tool list" where
  "handle_list_tools =
     [\<lparr>tool_name = ''execute-query'',
       tool_description = ''Execute a SELECT query on the BigQuery database'',
       inputSchema = \<lparr>schema_type = ''object'',
         properties =
           [(''query'', ''string'', ''SELECT SQL query to execute using BigQuery dialect'')],
         required = Some [''query'']\<rparr>\<rparr>,
      \<lparr>tool_name = ''list-tables'',
       tool_description = ''List all tables in the BigQuery database'',
       inputSchema = \<lparr>schema_type = ''object'',
         properties =
           [(''datasets_filter'', ''string'',
             ''Optional filter for datasets (e.g., 'my_dataset')'')],
         required = None\<rparr>\<rparr>,
      \<lparr>tool_name = ''describe-table'',
       tool_description = ''Get the schema information for a specific table'',
       inputSchema = \<lparr>schema_type = ''object'',
         properties =
           [(''table_name'', ''string'',
             ''Name of the table to describe (e.g. my_dataset.my_table)'')],
         required = Some [''table_name'']\<rparr>\<rparr>,
      \<lparr>tool_name = ''save-csv-file'',
       tool_description = ''Execute a SELECT query and save results to a CSV file'',
       inputSchema = \<lparr>schema_type = ''object'',
         properties =
           [(''query'', ''string'', ''SELECT SQL query to execute and save as CSV''),
            (''file_path'', ''string'',
             ''Path where to save the CSV file (e.g., /path/to/data.csv)'')],
         required = Some [''query'', ''file_path'']\<rparr>\<rparr>,
      \<lparr>tool_name = ''save-last-results-csv'',
       tool_description =
         ''Save the last query results to a CSV file without re-running the query'',
       inputSchema = \<lparr>schema_type = ''object'',
         properties =
           [(''file_path'', ''string'',
             ''Path where to save the CSV file (e.g., /path/to/data.csv)'')],
         required = Some [''file_path'']\<rparr>\<rparr>,
      \<lparr>tool_name = ''save-csv-auto'',
       tool_description =
         ''Execute a SELECT query and save results to an auto-generated CSV file with timestamp'',
       inputSchema = \<lparr>schema_type = ''object'',
         properties =
           [(''query'', ''string'', ''SELECT SQL query to execute and save as CSV''),
            (''directory'', ''string'',
             ''Directory where to save the CSV file (default: current directory)''),
            (''base_name'', ''string'',
             ''Base name for the CSV file (default: 'bigquery_export')'')],
         required = Some [''query'']\<rparr>\<rparr>]"

text \<open>The arguments a tool declares as required, read off the catalog.\<close>

definition required_args :: "string \<Rightarrow> string list" where
  "required_args nm =
     (case find (\<lambda>t. tool_name t = nm) handle_list_tools of
        None \<Rightarrow> []
      | Some t \<Rightarrow> (case required (inputSchema t) of None \<Rightarrow> [] | Some ks \<Rightarrow> ks))"

subsection \<open>The dispatcher\<close>

text \<open>
  The argument bag is \<open>dict[str, Any] | None\<close>, the dict being the list of its items
  (keys are looked up with \<open>map_of\<close>). \<open>not arguments\<close> holds for \<open>None\<close> and for the empty
  dict; \<open>arguments[k]\<close> raises \<open>TypeError\<close> on \<open>None\<close> and \<open>KeyError\<close> on a missing key;
  \<open>arguments.get(k, d)\<close> is only reached on a dict.
\<close>

type_synonym arguments = "(string \<times> pyval) list option"

datatype content = TextContent string

definition falsy_args :: "arguments \<Rightarrow> bool" where
  "falsy_args a = (case a of None \<Rightarrow> True | Some m \<Rightarrow> m = [])"

definition not_in :: "string \<Rightarrow> arguments \<Rightarrow> bool" where
  "not_in k a = (case a of None \<Rightarrow> True | Some m \<Rightarrow> map_of m k = None)"

definition subscript :: "arguments \<Rightarrow> string \<Rightarrow> exn + pyval" where
  "subscript a k =
     (case a of
        None \<Rightarrow> Inl (TypeError (quoted ''NoneType'' @ '' object is not subscriptable''))
      | Some m \<Rightarrow> (case map_of m k of None \<Rightarrow> Inl (KeyError k) | Some v \<Rightarrow> Inr v))"

definition get_default :: "arguments \<Rightarrow> string \<Rightarrow> pyval \<Rightarrow> pyval" where
  "get_default a k d =
     (case a of None \<Rightarrow> d | Some m \<Rightarrow> (case map_of m k of None \<Rightarrow> d | Some v \<Rightarrow> v))"

text \<open>\<open>return [types.TextContent(type="text", text=...)]\<close> around a call that may raise.\<close>

definition returning ::
  "('a \<Rightarrow> string) \<Rightarrow> (exn + 'a) \<times> world \<Rightarrow> (exn + content list) \<times> world" where
  "returning f r =
     (case fst r of
        Inl x \<Rightarrow> (Inl x, snd r)
      | Inr v \<Rightarrow> (Inr [TextContent (f v)], snd r))"

text \<open>
  The branches of the \<open>if\<close>/\<open>elif\<close> chain of \<open>handle_call_tool\<close>, one definition each.
  \<open>list-tables\<close> subscripts the bag without a guard and passes the value to
  \<open>db.list_tables\<close>, whose signature takes no argument.
\<close>

definition call_list_tables :: "env \<Rightarrow> arguments \<Rightarrow> world \<Rightarrow> (exn + content list) \<times> world" where
  "call_list_tables e a w =
     (case subscript a ''datasets_filter'' of
        Inl x \<Rightarrow> (Inl x, w)
      | Inr v \<Rightarrow>
          (case bind_positional ''BigQueryDatabase.list_tables'' list_tables_params [v] of
             Inl x \<Rightarrow> (Inl x, w)
           | Inr b \<Rightarrow> returning (str_tables e) (list_tables e w)))"

definition call_describe_table ::
  "env \<Rightarrow> arguments \<Rightarrow> world \<Rightarrow> (exn + content list) \<times> world" where
  "call_describe_table e a w =
     (if falsy_args a \<or> not_in ''table_name'' a then
        (Inl (ValueError ''Missing table_name argument''), w)
      else
        (case subscript a ''table_name'' of
           Inl x \<Rightarrow> (Inl x, w)
         | Inr v \<Rightarrow>
             (case v of
                PStr t \<Rightarrow> returning (str_rows e) (describe_table e t w)
              | _ \<Rightarrow>
                  (Inl (AttributeError (quoted (type_name v) @ '' object has no attribute ''
                          @ quoted ''split'')), w))))"

definition call_save_csv_file ::
  "env \<Rightarrow> arguments \<Rightarrow> world \<Rightarrow> (exn + content list) \<times> world" where
  "call_save_csv_file e a w =
     (if falsy_args a \<or> not_in ''query'' a \<or> not_in ''file_path'' a then
        (Inl (ValueError ''Missing query or file_path argument''), w)
      else
        (case subscript a ''query'' of
           Inl x \<Rightarrow> (Inl x, w)
         | Inr q \<Rightarrow>
             (case subscript a ''file_path'' of
                Inl x \<Rightarrow> (Inl x, w)
              | Inr fp \<Rightarrow> returning (\<lambda>r. r) (save_query_to_csv_file e q fp w))))"

definition call_save_last_results_csv ::
  "env \<Rightarrow> arguments \<Rightarrow> world \<Rightarrow> (exn + content list) \<times> world" where
  "call_save_last_results_csv e a w =
     (if falsy_args a \<or> not_in ''file_path'' a then
        (Inl (ValueError ''Missing file_path argument''), w)
      else
        (case subscript a ''file_path'' of
           Inl x \<Rightarrow> (Inl x, w)
         | Inr fp \<Rightarrow> returning (\<lambda>r. r) (save_last_results_to_csv_file fp w)))"

definition call_save_csv_auto ::
  "env \<Rightarrow> arguments \<Rightarrow> world \<Rightarrow> (exn + content list) \<times> world" where
  "call_save_csv_auto e a w =
     (if falsy_args a \<or> not_in ''query'' a then
        (Inl (ValueError ''Missing query argument''), w)
      else
        (let directory = get_default a ''directory'' (PStr ''.'');
             base_name = get_default a ''base_name'' (PStr ''bigquery_export'');
             filename = generate_csv_filename e base_name
         in case directory of
              PStr d \<Rightarrow>
                (case subscript a ''query'' of
                   Inl x \<Rightarrow> (Inl x, w)
                 | Inr q \<Rightarrow>
                     returning (\<lambda>r. r)
                       (save_query_to_csv_file e q (PStr (os_path_join d filename)) w))
            | _ \<Rightarrow>
                (Inl (TypeError (''expected str, bytes or os.PathLike object, not ''
                        @ type_name directory)), w)))"

definition call_execute_query ::
  "env \<Rightarrow> arguments \<Rightarrow> world \<Rightarrow> (exn + content list) \<times> world" where
  "call_execute_query e a w =
     (if falsy_args a \<or> not_in ''query'' a then
        (Inl (ValueError ''Missing query argument''), w)
      else
        (case subscript a ''query'' of
           Inl x \<Rightarrow> (Inl x, w)
         | Inr q \<Rightarrow> returning (str_rows e) (execute_query e q [] w)))"

text \<open>The body of the \<open>try\<close> block.\<close>

definition handle_call_tool_try ::
  "env \<Rightarrow> string \<Rightarrow> arguments \<Rightarrow> world \<Rightarrow> (exn + content list) \<times> world" where
  "handle_call_tool_try e nm a w =
     (if nm = ''list-tables'' then call_list_tables e a w
      else if nm = ''describe-table'' then call_describe_table e a w
      else if nm = ''save-csv-file'' then call_save_csv_file e a w
      else if nm = ''save-last-results-csv'' then call_save_last_results_csv e a w
      else if nm = ''save-csv-auto'' then call_save_csv_auto e a w
      else if nm = ''execute-query'' then call_execute_query e a w
      else (Inl (ValueError (''Unknown tool: '' @ nm)), w))"

text \<open>\<open>handle_call_tool\<close>: the \<open>try\<close> block and its \<open>except Exception as e\<close>.\<close>

definition handle_call_tool ::
  "env \<Rightarrow> string \<Rightarrow> arguments \<Rightarrow> world \<Rightarrow> content list \<times> world" where
  "handle_call_tool e nm a w =
     (case handle_call_tool_try e nm a w of
        (Inl x, w1) \<Rightarrow> ([TextContent (''Error: '' @ str_exn x)], w1)
      | (Inr r, w1) \<Rightarrow> (r, w1))"

subsection \<open>Start-up and sessions\<close>

text \<open>
  \<open>create_starlette_app(db_project, db_location, db_key_file)\<close> constructs the database
  object with the three values it was given, then registers the handlers and returns the
  application; \<open>main\<close> builds the application and starts serving it. The result, when there
  is one, is the state the handlers close over.
\<close>

definition create_starlette_app ::
  "env \<Rightarrow> pyval \<Rightarrow> pyval \<Rightarrow> pyval \<Rightarrow> world \<Rightarrow> exn + world" where
  "create_starlette_app e db_project db_location db_key_file w =
     BigQueryDatabase_init e [db_project, db_location, db_key_file] w"

definition main ::
  "env \<Rightarrow> pyval \<Rightarrow> pyval \<Rightarrow> pyval \<Rightarrow> string \<Rightarrow> int \<Rightarrow> world \<Rightarrow> exn + world" where
  "main e db_project db_location db_key_file host port w =
     (case create_starlette_app e db_project db_location db_key_file w of
        Inl x \<Rightarrow> Inl x
      | Inr app \<Rightarrow> Inr app)"

text \<open>
  Every connection to \<open>/sse\<close> runs \<open>server.run\<close> on the one \<open>server\<close> object, whose two
  handlers close over the one \<open>db\<close>. A request therefore carries the session it came in
  on, and the session selects no state.
\<close>

type_synonym session = nat

datatype request = ListTools | CallTool string arguments

datatype response = ToolsResult "tool list" | CallResult "content list"

fun handle_request :: "env \<Rightarrow> session \<Rightarrow> request \<Rightarrow> world \<Rightarrow> response \<times> world" where
  "handle_request e s ListTools w = (ToolsResult handle_list_tools, w)"
| "handle_request e s (CallTool nm a) w =
     (case handle_call_tool e nm a w of (r, w1) \<Rightarrow> (CallResult r, w1))"

fun run_requests ::
  "env \<Rightarrow> (session \<times> request) list \<Rightarrow> world \<Rightarrow> response list \<times> world" where
  "run_requests e [] w = ([], w)"
| "run_requests e ((s, r) # rest) w =
     (case handle_request e s r w of
        (resp, w1) \<Rightarrow> (case run_requests e rest w1 of (resps, w2) \<Rightarrow> (resp # resps, w2)))"

text \<open>
  The requests that go through \<open>execute_query\<close>, the one method that assigns
  \<open>last_query_results\<close>: \<open>execute-query\<close> itself and \<open>describe-table\<close>.
\<close>

definition sets_cache :: "request \<Rightarrow> bool" where
  "sets_cache r =
     (case r of
        ListTools \<Rightarrow> False
      | CallTool nm a \<Rightarrow> nm = ''execute-query'' \<or> nm = ''describe-table'')"

section \<open>Concrete inputs\<close>

text \<open>
  A warehouse that answers every query with two rows of two columns, and a process that
  has run no query and written no file.
\<close>

definition demo_result :: result_set where
  "demo_result =
     \<lparr>rs_schema = [(''id'', ''INTEGER''), (''name'', ''STRING'')],
      rs_rows = [[(''id'', PInt 1), (''name'', PStr ''a'')],
                 [(''id'', PInt 2), (''name'', PStr ''b'')]]\<rparr>"

definition demo_env :: env where
  "demo_env =
     \<lparr>client_query = (\<lambda>q ps. Inr demo_result),
      client_dataset = (\<lambda>d. Inr (case d of PStr s \<Rightarrow> s | _ \<Rightarrow> [])),
      client_list_datasets = Inr [''ds''],
      client_list_tables = (\<lambda>d. Inr [''t1'']),
      load_credentials = (\<lambda>k. None),
      new_client = (\<lambda>p l. None),
      now_stamp = ''20240101_000000'',
      py_str = (\<lambda>v. ''None''),
      str_rows = (\<lambda>r. ''rows''),
      str_tables = (\<lambda>t. ''tables'')\<rparr>"

definition fresh_world :: world where
  "fresh_world =
     \<lparr>datasets_filter = PNone, last_query_results = None, calls = [],
      dirs = {}, files = Map.empty\<rparr>"

text \<open>The same process with the demo result in the cache.\<close>

definition cached_world :: world where
  "cached_world =
     fresh_world\<lparr>last_query_results :=
       Some \<lparr>rs_schema = rs_schema demo_result,
             rs_rows = map dict_of_items (rs_rows demo_result)\<rparr>\<rparr>"

text \<open>A history in which session 1 has executed one query and no other session has done anything.\<close>

definition one_query_history :: "(session \<times> request) list" where
  "one_query_history =
     [(1, CallTool ''execute-query'' (Some [(''query'', PStr ''SELECT 1'')]))]"

section \<open>Start-up\<close>

lemma show_nat_1: "show_nat (Suc 0) = ''1''"
proof -
  have "show_nat 1 = ''1''" by code_simp
  then show ?thesis by simp
qed

lemma show_nat_2: "show_nat 2 = ''2''"
  by code_simp

lemma show_nat_Suc_Suc_0: "show_nat (Suc (Suc 0)) = ''2''"
  using show_nat_2 by (simp add: numeral_2_eq_2)

lemma init_three_arguments:
  "BigQueryDatabase_init e [p, l, k] w =
     Inl (TypeError (''BigQueryDatabase.__init__() missing 1 required positional argument: ''
            @ quoted ''datasets_filter''))"
  by (simp add: BigQueryDatabase_init_def bind_positional_def BigQueryDatabase_init_params_def
      show_nat_1 plural_def)

text \<open>
  C10. Whatever project, location and key file are configured, \<open>create_starlette_app\<close>
  raises \<open>TypeError\<close> when it constructs the database object, because it passes three
  arguments to a constructor with four required parameters; \<open>main\<close> therefore raises as
  well and never reaches the call that starts serving.
\<close>

theorem create_starlette_app_raises:
  "create_starlette_app e p l k w =
     Inl (TypeError (''BigQueryDatabase.__init__() missing 1 required positional argument: ''
            @ quoted ''datasets_filter''))
   \<and> main e p l k host port w =
     Inl (TypeError (''BigQueryDatabase.__init__() missing 1 required positional argument: ''
            @ quoted ''datasets_filter''))"
  by (simp add: create_starlette_app_def main_def init_three_arguments)

section \<open>The catalog\<close>

text \<open>
  C1, as stated: the catalog has exactly five descriptors. It has six.
\<close>

theorem catalog_not_five: "length handle_list_tools \<noteq> 5"
  by (simp add: handle_list_tools_def)

text \<open>
  C1, amended: after any history of requests on any sessions, a catalog request on any
  session is answered with the same six descriptors, in the order \<open>execute-query\<close>,
  \<open>list-tables\<close>, \<open>describe-table\<close>, \<open>save-csv-file\<close>, \<open>save-last-results-csv\<close>,
  \<open>save-csv-auto\<close>, and it leaves the state as it was.
\<close>

theorem catalog_six_tools:
  "fst (handle_request e s ListTools (snd (run_requests e reqs w)))
     = ToolsResult handle_list_tools
   \<and> snd (handle_request e s ListTools w) = w
   \<and> length handle_list_tools = 6
   \<and> map tool_name handle_list_tools =
       [''execute-query'', ''list-tables'', ''describe-table'', ''save-csv-file'',
        ''save-last-results-csv'', ''save-csv-auto'']"
  by (simp add: handle_list_tools_def)

section \<open>The dispatcher\<close>

subsection \<open>The shape of a result\<close>

lemma returning_shape:
  "(\<exists>x. fst (returning f r) = Inl x) \<or> (\<exists>t. fst (returning f r) = Inr [TextContent t])"
  by (simp add: returning_def split: sum.splits)

lemma returning_snd: "snd (returning f r) = snd r"
  by (simp add: returning_def split: sum.splits)

lemma call_list_tables_shape:
  "(\<exists>x. fst (call_list_tables e a w) = Inl x)
   \<or> (\<exists>t. fst (call_list_tables e a w) = Inr [TextContent t])"
  using returning_shape [of "str_tables e" "list_tables e w"]
  by (simp add: call_list_tables_def split: sum.splits)

lemma call_describe_table_shape:
  "(\<exists>x. fst (call_describe_table e a w) = Inl x)
   \<or> (\<exists>t. fst (call_describe_table e a w) = Inr [TextContent t])"
  using returning_shape [of "str_rows e"]
  by (simp add: call_describe_table_def split: sum.splits pyval.splits)

lemma call_save_csv_file_shape:
  "(\<exists>x. fst (call_save_csv_file e a w) = Inl x)
   \<or> (\<exists>t. fst (call_save_csv_file e a w) = Inr [TextContent t])"
  using returning_shape [of "\<lambda>r. r"]
  by (simp add: call_save_csv_file_def split: sum.splits)

lemma call_save_last_results_csv_shape:
  "(\<exists>x. fst (call_save_last_results_csv e a w) = Inl x)
   \<or> (\<exists>t. fst (call_save_last_results_csv e a w) = Inr [TextContent t])"
  using returning_shape [of "\<lambda>r. r"]
  by (simp add: call_save_last_results_csv_def split: sum.splits)

lemma call_save_csv_auto_shape:
  "(\<exists>x. fst (call_save_csv_auto e a w) = Inl x)
   \<or> (\<exists>t. fst (call_save_csv_auto e a w) = Inr [TextContent t])"
  using returning_shape [of "\<lambda>r. r"]
  by (simp add: call_save_csv_auto_def Let_def split: sum.splits pyval.splits)

lemma call_execute_query_shape:
  "(\<exists>x. fst (call_execute_query e a w) = Inl x)
   \<or> (\<exists>t. fst (call_execute_query e a w) = Inr [TextContent t])"
  using returning_shape [of "str_rows e"]
  by (simp add: call_execute_query_def split: sum.splits)

lemma handle_call_tool_try_shape:
  "(\<exists>x. fst (handle_call_tool_try e nm a w) = Inl x)
   \<or> (\<exists>t. fst (handle_call_tool_try e nm a w) = Inr [TextContent t])"
  using call_list_tables_shape call_describe_table_shape call_save_csv_file_shape
    call_save_last_results_csv_shape call_save_csv_auto_shape call_execute_query_shape
  by (simp add: handle_call_tool_try_def)

lemma handle_call_tool_fst:
  "fst (handle_call_tool e nm a w) =
     (case fst (handle_call_tool_try e nm a w) of
        Inl x \<Rightarrow> [TextContent (''Error: '' @ str_exn x)] | Inr r \<Rightarrow> r)"
  by (simp add: handle_call_tool_def split: prod.splits sum.splits)

lemma handle_call_tool_snd:
  "snd (handle_call_tool e nm a w) = snd (handle_call_tool_try e nm a w)"
  by (simp add: handle_call_tool_def split: prod.splits sum.splits)

lemma unknown_tool_name:
  "nm \<notin> set (map tool_name handle_list_tools) \<Longrightarrow>
   handle_call_tool_try e nm a w = (Inl (ValueError (''Unknown tool: '' @ nm)), w)"
  by (auto simp add: handle_list_tools_def handle_call_tool_try_def)

text \<open>
  C3. For every tool name and every argument bag, \<open>None\<close> included, \<open>handle_call_tool\<close>
  returns exactly one text block; whenever the \<open>try\<close> block raises \<open>x\<close> the block reads
  \<open>Error: \<close> followed by \<open>str(x)\<close>; and a name outside the catalog yields
  \<open>Error: Unknown tool: <name>\<close> with the state untouched.
\<close>

theorem handle_call_tool_never_raises:
  "(\<exists>t. fst (handle_call_tool e nm a w) = [TextContent t])
   \<and> (\<forall>x. fst (handle_call_tool_try e nm a w) = Inl x \<longrightarrow>
          handle_call_tool e nm a w =
            ([TextContent (''Error: '' @ str_exn x)], snd (handle_call_tool_try e nm a w)))
   \<and> (nm \<notin> set (map tool_name handle_list_tools) \<longrightarrow>
          handle_call_tool e nm a w = ([TextContent (''Error: Unknown tool: '' @ nm)], w))"
proof (intro conjI allI impI)
  show "\<exists>t. fst (handle_call_tool e nm a w) = [TextContent t]"
    using handle_call_tool_try_shape [of e nm a w] by (auto simp add: handle_call_tool_fst)
next
  fix x assume "fst (handle_call_tool_try e nm a w) = Inl x"
  then show "handle_call_tool e nm a w =
      ([TextContent (''Error: '' @ str_exn x)], snd (handle_call_tool_try e nm a w))"
    by (cases "handle_call_tool_try e nm a w") (simp add: handle_call_tool_def)
next
  assume "nm \<notin> set (map tool_name handle_list_tools)"
  then show "handle_call_tool e nm a w = ([TextContent (''Error: Unknown tool: '' @ nm)], w)"
    by (simp add: handle_call_tool_def unknown_tool_name)
qed

text \<open>
  C3 at a concrete input: the tool \<open>drop-everything\<close> with no argument bag. The \<open>try\<close>
  block raises \<open>ValueError\<close>, the name is not in the catalog, and the answer is the error
  block.
\<close>

theorem handle_call_tool_never_raises_witness:
  "fst (handle_call_tool_try demo_env ''drop-everything'' None fresh_world)
     = Inl (ValueError ''Unknown tool: drop-everything'')
   \<and> ''drop-everything'' \<notin> set (map tool_name handle_list_tools)
   \<and> handle_call_tool demo_env ''drop-everything'' None fresh_world
     = ([TextContent ''Error: Unknown tool: drop-everything''], fresh_world)
   \<and> handle_call_tool demo_env ''drop-everything'' None fresh_world
     = ([TextContent (''Error: '' @ str_exn (ValueError ''Unknown tool: drop-everything''))],
        snd (handle_call_tool_try demo_env ''drop-everything'' None fresh_world))"
proof -
  have 1: "''drop-everything'' \<notin> set (map tool_name handle_list_tools)"
    by (simp add: handle_list_tools_def)
  have 2: "fst (handle_call_tool_try demo_env ''drop-everything'' None fresh_world)
     = Inl (ValueError ''Unknown tool: drop-everything'')"
    by (simp add: handle_call_tool_try_def)
  have 3: "handle_call_tool demo_env ''drop-everything'' None fresh_world
      = ([TextContent (''Error: Unknown tool: '' @ ''drop-everything'')], fresh_world)"
    using handle_call_tool_never_raises [of demo_env "''drop-everything''" None fresh_world] 1
    by blast
  have 4: "handle_call_tool demo_env ''drop-everything'' None fresh_world
      = ([TextContent (''Error: '' @ str_exn (ValueError ''Unknown tool: drop-everything''))],
         snd (handle_call_tool_try demo_env ''drop-everything'' None fresh_world))"
    using handle_call_tool_never_raises [of demo_env "''drop-everything''" None fresh_world] 2
    by blast
  have 5: "handle_call_tool demo_env ''drop-everything'' None fresh_world
      = ([TextContent ''Error: Unknown tool: drop-everything''], fresh_world)"
    using 3 by simp
  from 1 2 5 4 show ?thesis by (intro conjI)
qed

subsection \<open>list-tables\<close>

lemma list_tables_arity:
  "bind_positional ''BigQueryDatabase.list_tables'' list_tables_params [v] =
     Inl (TypeError
           ''BigQueryDatabase.list_tables() takes 1 positional argument but 2 were given'')"
  by (simp add: bind_positional_def list_tables_params_def show_nat_1 show_nat_2 plural_def
      numeral_2_eq_2 [symmetric])

lemma call_list_tables_raises:
  "call_list_tables e a w =
     (Inl (case a of
             None \<Rightarrow> TypeError (quoted ''NoneType'' @ '' object is not subscriptable'')
           | Some m \<Rightarrow>
               (case map_of m ''datasets_filter'' of
                  None \<Rightarrow> KeyError ''datasets_filter''
                | Some v \<Rightarrow>
                    TypeError
                      ''BigQueryDatabase.list_tables() takes 1 positional argument but 2 were given'')),
      w)"
  by (simp add: call_list_tables_def subscript_def list_tables_arity split: option.splits)

text \<open>
  C2, on the code: \<open>list-tables\<close> with an empty argument bag answers
  \<open>Error: 'datasets_filter'\<close> (the \<open>KeyError\<close> of the unguarded subscript), with no argument
  bag it answers \<open>Error: 'NoneType' object is not subscriptable\<close>, and with any bag at all
  it answers an error and leaves the state as it was, so the client is never asked for a
  listing.
\<close>

theorem list_tables_always_error:
  "handle_call_tool e ''list-tables'' (Some []) w =
     ([TextContent (''Error: '' @ quoted ''datasets_filter'')], w)
   \<and> handle_call_tool e ''list-tables'' None w =
     ([TextContent (''Error: '' @ quoted ''NoneType'' @ '' object is not subscriptable'')], w)
   \<and> (\<exists>m. handle_call_tool e ''list-tables'' a w = ([TextContent (''Error: '' @ m)], w))"
  by (simp add: handle_call_tool_def handle_call_tool_try_def call_list_tables_raises quoted_def
      split: option.splits)

subsection \<open>Missing arguments\<close>

lemma required_args_cases:
  "k \<in> set (required_args nm) \<Longrightarrow>
     (nm = ''execute-query'' \<and> k = ''query'') \<or>
     (nm = ''describe-table'' \<and> k = ''table_name'') \<or>
     (nm = ''save-csv-file'' \<and> (k = ''query'' \<or> k = ''file_path'')) \<or>
     (nm = ''save-last-results-csv'' \<and> k = ''file_path'') \<or>
     (nm = ''save-csv-auto'' \<and> k = ''query'')"
  by (simp add: required_args_def handle_list_tools_def split: if_splits)

text \<open>
  C8. When an argument that the catalog declares as required for the tool is not in the
  argument bag, or there is no bag, the dispatcher answers a single block
  \<open>Error: Missing ...\<close> and the state is unchanged: no query was issued, no listing was
  requested, no directory or file was written.
\<close>

theorem missing_required_argument:
  assumes "k \<in> set (required_args nm)" and "not_in k a"
  shows "\<exists>m. handle_call_tool e nm a w = ([TextContent (''Error: Missing '' @ m)], w)"
  using required_args_cases [OF assms(1)] assms(2)
  by (auto simp add: handle_call_tool_def handle_call_tool_try_def call_execute_query_def
      call_describe_table_def call_save_csv_file_def call_save_last_results_csv_def
      call_save_csv_auto_def)

text \<open>C8 at a concrete input: \<open>save-csv-file\<close> with a query and no \<open>file_path\<close>.\<close>

theorem missing_required_argument_witness:
  "''file_path'' \<in> set (required_args ''save-csv-file'')
   \<and> not_in ''file_path'' (Some [(''query'', PStr ''SELECT 1'')])
   \<and> (\<exists>m. handle_call_tool demo_env ''save-csv-file'' (Some [(''query'', PStr ''SELECT 1'')])
              fresh_world
            = ([TextContent (''Error: Missing '' @ m)], fresh_world))"
proof -
  have 1: "''file_path'' \<in> set (required_args ''save-csv-file'')"
    by (simp add: required_args_def handle_list_tools_def)
  have 2: "not_in ''file_path'' (Some [(''query'', PStr ''SELECT 1'')])"
    by (simp add: not_in_def)
  from missing_required_argument [OF 1 2] 1 2 show ?thesis by blast
qed

subsection \<open>describe-table\<close>

lemma split_on_nonempty: "split_on c s \<noteq> []"
  by (induction s) (auto split: list.splits)

lemma length_split_on: "length (split_on c s) = Suc (length (filter (\<lambda>x. x = c) s))"
  by (induction s) (auto split: list.splits simp add: split_on_nonempty)

lemma call_describe_table_string:
  "map_of m ''table_name'' = Some (PStr t) \<Longrightarrow>
   call_describe_table e (Some m) w = returning (str_rows e) (describe_table e t w)"
  by (auto simp add: call_describe_table_def falsy_args_def not_in_def subscript_def)

lemma execute_query_calls:
  "calls (snd (execute_query e q ps w)) = calls w @ [EvQuery q ps]"
  by (simp add: execute_query_def Let_def split: sum.splits)

text \<open>
  C7. Let the argument bag give the string \<open>t\<close> as \<open>table_name\<close>. The number of segments of
  \<open>t\<close> is the number of its dots plus one. When it is neither 2 nor 3, \<open>describe-table\<close>
  answers \<open>Error: Invalid table name: t\<close> and the state is unchanged, so no query reached
  the client. When it is 2 or 3, exactly one query is issued to the client: the DDL query
  on the dataset named by all segments but the last, with the last segment as the
  \<open>table_name\<close> parameter.
\<close>

theorem describe_table_segment_check:
  assumes "map_of m ''table_name'' = Some (PStr t)"
  shows "length (split_on CHR ''.'' t) = Suc (length (filter (\<lambda>c. c = CHR ''.'') t))
   \<and> (length (split_on CHR ''.'' t) \<noteq> 2 \<and> length (split_on CHR ''.'' t) \<noteq> 3 \<longrightarrow>
        handle_call_tool e ''describe-table'' (Some m) w =
          ([TextContent (''Error: Invalid table name: '' @ t)], w))
   \<and> (length (split_on CHR ''.'' t) = 2 \<or> length (split_on CHR ''.'' t) = 3 \<longrightarrow>
        calls (snd (handle_call_tool e ''describe-table'' (Some m) w)) =
          calls w @ [EvQuery (PStr (ddl_query (join_with ''.'' (butlast (split_on CHR ''.'' t)))))
                       [(''table_name'', ''STRING'', last (split_on CHR ''.'' t))]])"
proof (intro conjI impI)
  show "length (split_on CHR ''.'' t) = Suc (length (filter (\<lambda>c. c = CHR ''.'') t))"
    by (rule length_split_on)
next
  assume "length (split_on CHR ''.'' t) \<noteq> 2 \<and> length (split_on CHR ''.'' t) \<noteq> 3"
  then show "handle_call_tool e ''describe-table'' (Some m) w =
          ([TextContent (''Error: Invalid table name: '' @ t)], w)"
    by (simp add: handle_call_tool_def handle_call_tool_try_def
        call_describe_table_string [OF assms] describe_table_def returning_def Let_def)
next
  assume "length (split_on CHR ''.'' t) = 2 \<or> length (split_on CHR ''.'' t) = 3"
  then have "describe_table e t w =
      execute_query e (PStr (ddl_query (join_with ''.'' (butlast (split_on CHR ''.'' t)))))
        [(''table_name'', ''STRING'', last (split_on CHR ''.'' t))] w"
    by (simp add: describe_table_def Let_def)
  then show "calls (snd (handle_call_tool e ''describe-table'' (Some m) w)) =
          calls w @ [EvQuery (PStr (ddl_query (join_with ''.'' (butlast (split_on CHR ''.'' t)))))
                       [(''table_name'', ''STRING'', last (split_on CHR ''.'' t))]]"
    by (simp add: handle_call_tool_snd handle_call_tool_try_def
        call_describe_table_string [OF assms] returning_snd execute_query_calls)
qed

text \<open>
  C7 at concrete inputs: \<open>onlytable\<close> has one segment and is refused without a query;
  \<open>p.d.t\<close> has three and the DDL query on \<open>p.d\<close> for table \<open>t\<close> is issued.
\<close>

theorem describe_table_segment_check_witness:
  "map_of [(''table_name'', PStr ''onlytable'')] ''table_name'' = Some (PStr ''onlytable'')
   \<and> length (split_on CHR ''.'' ''onlytable'') = 1
   \<and> handle_call_tool demo_env ''describe-table''
        (Some [(''table_name'', PStr ''onlytable'')]) fresh_world
      = ([TextContent ''Error: Invalid table name: onlytable''], fresh_world)
   \<and> map_of [(''table_name'', PStr ''p.d.t'')] ''table_name'' = Some (PStr ''p.d.t'')
   \<and> length (split_on CHR ''.'' ''p.d.t'') = 3
   \<and> calls (snd (handle_call_tool demo_env ''describe-table''
                    (Some [(''table_name'', PStr ''p.d.t'')]) fresh_world))
      = calls fresh_world
        @ [EvQuery (PStr (ddl_query ''p.d'')) [(''table_name'', ''STRING'', ''t'')]]"
proof -
  have a: "map_of [(''table_name'', PStr ''onlytable'')] ''table_name''
      = Some (PStr ''onlytable'')"
    by simp
  have b: "map_of [(''table_name'', PStr ''p.d.t'')] ''table_name'' = Some (PStr ''p.d.t'')"
    by simp
  have la: "split_on CHR ''.'' ''onlytable'' = [''onlytable'']" by simp
  have lb: "split_on CHR ''.'' ''p.d.t'' = [''p'', ''d'', ''t'']" by simp
  show ?thesis
    using describe_table_segment_check [OF a, of demo_env fresh_world]
      describe_table_segment_check [OF b, of demo_env fresh_world]
    by (simp add: la lb)
qed

section \<open>Writing CSV files\<close>

lemma dirname_bare: "CHR ''/'' \<notin> set p \<Longrightarrow> os_path_dirname p = []"
proof -
  assume "CHR ''/'' \<notin> set p"
  then have "dropWhile (\<lambda>c. c \<noteq> CHR ''/'') (rev p) = []"
    by (auto simp add: dropWhile_eq_Nil_conv)
  then show ?thesis by (simp add: os_path_dirname_def)
qed

text \<open>
  C9, on the code: for a path without a slash, such as \<open>data.csv\<close>, and a query that
  succeeds, \<open>save-csv-file\<close> runs the query and then answers
  \<open>Error: [Errno 2] No such file or directory: ''\<close>: the directory name of the path is
  empty and \<open>os.makedirs\<close> refuses it. Nothing is written; only the query was issued.
\<close>

theorem bare_filename_not_written:
  assumes "CHR ''/'' \<notin> set p" and "client_query e q [] = Inr rs"
  shows "handle_call_tool e ''save-csv-file''
           (Some [(''query'', q), (''file_path'', PStr p)]) w =
     ([TextContent (''Error: [Errno 2] No such file or directory: '' @ quoted [])],
      w\<lparr>calls := calls w @ [EvQuery q []]\<rparr>)"
  using assms
  by (simp add: handle_call_tool_def handle_call_tool_try_def call_save_csv_file_def
      falsy_args_def not_in_def subscript_def save_query_to_csv_file_def write_csv_def
      dirname_bare os_makedirs_def returning_def Let_def)

text \<open>C9 at the failing input: the query \<open>SELECT 1\<close> saved to \<open>data.csv\<close>.\<close>

theorem bare_filename_not_written_witness:
  "CHR ''/'' \<notin> set ''data.csv''
   \<and> client_query demo_env (PStr ''SELECT 1'') [] = Inr demo_result
   \<and> handle_call_tool demo_env ''save-csv-file''
        (Some [(''query'', PStr ''SELECT 1''), (''file_path'', PStr ''data.csv'')]) fresh_world
     = ([TextContent (''Error: [Errno 2] No such file or directory: '' @ quoted [])],
        fresh_world\<lparr>calls := [EvQuery (PStr ''SELECT 1'') []]\<rparr>)"
proof -
  have 1: "CHR ''/'' \<notin> set ''data.csv''" by simp
  have 2: "client_query demo_env (PStr ''SELECT 1'') [] = Inr demo_result"
    by (simp add: demo_env_def)
  have 3: "calls fresh_world = []" by (simp add: fresh_world_def)
  from bare_filename_not_written [OF 1 2, of fresh_world] 1 2 3 show ?thesis by simp
qed

section \<open>The cache of the last query\<close>

subsection \<open>What the file-system steps leave alone\<close>

lemma os_makedirs_frame:
  "os_makedirs d w = Inr w1 \<Longrightarrow>
     last_query_results w1 = last_query_results w \<and> files w1 = files w \<and> calls w1 = calls w"
  by (auto simp add: os_makedirs_def split: if_splits)

lemma open_write_frame:
  "open_write p c w = Inr w1 \<Longrightarrow>
     last_query_results w1 = last_query_results w \<and> files w1 = (files w)(p \<mapsto> c)
     \<and> calls w1 = calls w"
  by (auto simp add: open_write_def split: if_splits)

lemma write_csv_cache:
  "last_query_results (snd (write_csv fp sch vals w)) = last_query_results w"
proof (cases fp)
  case (PStr p)
  show ?thesis
  proof (cases "os_makedirs (os_path_dirname p) w")
    case (Inl x)
    then show ?thesis by (simp add: write_csv_def PStr)
  next
    case mk: (Inr w1)
    show ?thesis
    proof (cases "open_write p (csv_content sch vals) w1")
      case (Inl x)
      then show ?thesis using os_makedirs_frame [OF mk] by (simp add: write_csv_def PStr mk)
    next
      case (Inr w2)
      from open_write_frame [OF Inr] os_makedirs_frame [OF mk] show ?thesis
        by (simp add: write_csv_def PStr mk Inr)
    qed
  qed
qed (simp_all add: write_csv_def)

lemma write_csv_files:
  assumes "write_csv (PStr p) sch vals w = (r, w1)"
  shows "(\<exists>x. r = Inl x \<and> files w1 = files w)
     \<or> (r = Inr (''Successfully saved '' @ show_nat (length vals) @ '' rows to '' @ p)
        \<and> files w1 = (files w)(p \<mapsto> csv_content sch vals))"
proof (cases "os_makedirs (os_path_dirname p) w")
  case (Inl x)
  then show ?thesis using assms by (auto simp add: write_csv_def)
next
  case mk: (Inr w2)
  show ?thesis
  proof (cases "open_write p (csv_content sch vals) w2")
    case (Inl x)
    then show ?thesis using assms os_makedirs_frame [OF mk] by (auto simp add: write_csv_def mk)
  next
    case (Inr w3)
    from open_write_frame [OF Inr] os_makedirs_frame [OF mk] assms show ?thesis
      by (auto simp add: write_csv_def mk Inr)
  qed
qed

subsection \<open>Who writes the cache and who reads it\<close>

lemma save_query_to_csv_file_cache:
  "last_query_results (snd (save_query_to_csv_file e q fp w)) = last_query_results w"
  by (simp add: save_query_to_csv_file_def Let_def write_csv_cache split: sum.splits)

lemma call_save_csv_file_cache:
  "last_query_results (snd (call_save_csv_file e a w)) = last_query_results w"
  by (simp add: call_save_csv_file_def returning_snd save_query_to_csv_file_cache
      split: sum.splits)

lemma call_save_csv_auto_cache:
  "last_query_results (snd (call_save_csv_auto e a w)) = last_query_results w"
  by (simp add: call_save_csv_auto_def Let_def returning_snd save_query_to_csv_file_cache
      split: sum.splits pyval.splits)

lemma execute_query_cache:
  "client_query e q ps = Inr rs \<Longrightarrow>
   last_query_results (snd (execute_query e q ps w)) =
     Some \<lparr>rs_schema = rs_schema rs, rs_rows = map dict_of_items (rs_rows rs)\<rparr>"
  by (simp add: execute_query_def Let_def)

lemma call_execute_query_arg:
  "map_of m ''query'' = Some q \<Longrightarrow>
   call_execute_query e (Some m) w = returning (str_rows e) (execute_query e q [] w)"
  by (auto simp add: call_execute_query_def falsy_args_def not_in_def subscript_def)

lemma call_save_last_results_cached:
  "last_query_results w = Some c \<Longrightarrow>
   call_save_last_results_csv e (Some [(''file_path'', fp)]) w =
     returning (\<lambda>r. r) (write_csv fp (rs_schema c) (map (map snd) (rs_rows c)) w)"
  by (simp add: call_save_last_results_csv_def falsy_args_def not_in_def subscript_def
      save_last_results_to_csv_file_def)

lemma demo_rows_dict: "map dict_of_items (rs_rows demo_result) = rs_rows demo_result"
  by (simp add: demo_result_def dict_of_items_def)

lemma write_demo:
  "files w = Map.empty \<Longrightarrow> dirs w = {} \<Longrightarrow>
   fst (write_csv (PStr ''/tmp/out.csv'') (rs_schema demo_result)
          (map (map snd) (rs_rows demo_result)) w)
     = Inr ''Successfully saved 2 rows to /tmp/out.csv''"
  by (simp add: write_csv_def os_path_dirname_def os_makedirs_def open_write_def isdir_def
      demo_result_def show_nat_Suc_Suc_0)

text \<open>
  C5, as stated, fails: in a process that has run no query, \<open>save-csv-file\<close> succeeds with
  two rows, the cache is still empty afterwards, and \<open>save-last-results-csv\<close> then reports
  that there are no previous results.
\<close>

theorem csv_export_leaves_cache_empty:
  "fst (handle_call_tool demo_env ''save-csv-file''
          (Some [(''query'', PStr ''SELECT 1''), (''file_path'', PStr ''/tmp/out.csv'')])
          fresh_world)
     = [TextContent ''Successfully saved 2 rows to /tmp/out.csv'']
   \<and> last_query_results
         (snd (handle_call_tool demo_env ''save-csv-file''
                 (Some [(''query'', PStr ''SELECT 1''), (''file_path'', PStr ''/tmp/out.csv'')])
                 fresh_world))
     = None
   \<and> fst (handle_call_tool demo_env ''save-last-results-csv''
            (Some [(''file_path'', PStr ''/tmp/again.csv'')])
            (snd (handle_call_tool demo_env ''save-csv-file''
                    (Some [(''query'', PStr ''SELECT 1''),
                           (''file_path'', PStr ''/tmp/out.csv'')])
                    fresh_world)))
     = [TextContent ''Error: No previous query results available. Execute a query first.'']"
  by (simp add: handle_call_tool_def handle_call_tool_try_def call_save_csv_file_def
      call_save_last_results_csv_def falsy_args_def not_in_def subscript_def
      save_query_to_csv_file_def save_last_results_to_csv_file_def write_csv_def
      os_path_dirname_def os_makedirs_def open_write_def isdir_def csv_content_def
      returning_def demo_env_def demo_result_def fresh_world_def show_nat_Suc_Suc_0 Let_def)

text \<open>
  C5, amended. \<open>save-csv-file\<close> and \<open>save-csv-auto\<close> never change the cache, whatever their
  arguments and whether they succeed or fail. A successful \<open>execute-query\<close> sets the cache
  to the schema and the rows (as dicts) of the query it ran, whatever the cache held
  before. With \<open>c\<close> in the cache, \<open>save-last-results-csv\<close> to the path \<open>p\<close> either answers
  an error and leaves the files alone, or reports the number of rows of \<open>c\<close> and leaves at
  \<open>p\<close> the header of \<open>c\<close> followed by the rows of \<open>c\<close>.
\<close>

theorem only_execute_query_sets_cache:
  "(nm = ''save-csv-file'' \<or> nm = ''save-csv-auto'' \<longrightarrow>
      last_query_results (snd (handle_call_tool e nm a w)) = last_query_results w)
   \<and> (client_query e q [] = Inr rs \<and> map_of m ''query'' = Some q \<longrightarrow>
      last_query_results (snd (handle_call_tool e ''execute-query'' (Some m) w)) =
        Some \<lparr>rs_schema = rs_schema rs, rs_rows = map dict_of_items (rs_rows rs)\<rparr>)
   \<and> (last_query_results w = Some c \<longrightarrow>
      (\<exists>x. fst (handle_call_tool e ''save-last-results-csv''
                    (Some [(''file_path'', PStr p)]) w)
             = [TextContent (''Error: '' @ x)]
           \<and> files (snd (handle_call_tool e ''save-last-results-csv''
                           (Some [(''file_path'', PStr p)]) w)) = files w)
      \<or> (fst (handle_call_tool e ''save-last-results-csv'' (Some [(''file_path'', PStr p)]) w)
             = [TextContent (''Successfully saved '' @ show_nat (length (rs_rows c))
                               @ '' rows to '' @ p)]
           \<and> files (snd (handle_call_tool e ''save-last-results-csv''
                           (Some [(''file_path'', PStr p)]) w))
             = (files w)(p \<mapsto> csv_content (rs_schema c) (map (map snd) (rs_rows c)))))"
proof (intro conjI impI)
  assume "nm = ''save-csv-file'' \<or> nm = ''save-csv-auto''"
  then show "last_query_results (snd (handle_call_tool e nm a w)) = last_query_results w"
    by (auto simp add: handle_call_tool_snd handle_call_tool_try_def call_save_csv_file_cache
        call_save_csv_auto_cache)
next
  assume "client_query e q [] = Inr rs \<and> map_of m ''query'' = Some q"
  then show "last_query_results (snd (handle_call_tool e ''execute-query'' (Some m) w)) =
        Some \<lparr>rs_schema = rs_schema rs, rs_rows = map dict_of_items (rs_rows rs)\<rparr>"
    by (simp add: handle_call_tool_snd handle_call_tool_try_def call_execute_query_arg
        returning_snd execute_query_cache)
next
  let ?h = "handle_call_tool e ''save-last-results-csv'' (Some [(''file_path'', PStr p)]) w"
  let ?vals = "map (map snd) (rs_rows c)"
  assume c: "last_query_results w = Some c"
  obtain r w1 where wr: "write_csv (PStr p) (rs_schema c) ?vals w = (r, w1)"
    by (cases "write_csv (PStr p) (rs_schema c) ?vals w")
  have h: "?h = (case r of Inl x \<Rightarrow> [TextContent (''Error: '' @ str_exn x)]
                 | Inr t \<Rightarrow> [TextContent t], w1)"
    by (simp add: handle_call_tool_def handle_call_tool_try_def
        call_save_last_results_cached [OF c] wr returning_def split: sum.splits)
  from write_csv_files [OF wr]
  show "(\<exists>x. fst ?h = [TextContent (''Error: '' @ x)] \<and> files (snd ?h) = files w)
      \<or> (fst ?h = [TextContent (''Successfully saved '' @ show_nat (length (rs_rows c))
                               @ '' rows to '' @ p)]
           \<and> files (snd ?h) = (files w)(p \<mapsto> csv_content (rs_schema c) ?vals))"
    by (auto simp add: h)
qed

text \<open>
  C5, amended, at concrete inputs: \<open>save-csv-file\<close> on a process with the demo result in
  the cache leaves the cache as it is; \<open>execute-query\<close> on a fresh process puts the demo
  result into the cache; \<open>save-last-results-csv\<close> then writes the header and the two rows.
\<close>

theorem only_execute_query_sets_cache_witness:
  "last_query_results
      (snd (handle_call_tool demo_env ''save-csv-file''
              (Some [(''query'', PStr ''SELECT 1''), (''file_path'', PStr ''/tmp/out.csv'')])
              cached_world))
     = last_query_results cached_world
   \<and> client_query demo_env (PStr ''SELECT 1'') [] = Inr demo_result
   \<and> last_query_results
        (snd (handle_call_tool demo_env ''execute-query'' (Some [(''query'', PStr ''SELECT 1'')])
                fresh_world))
     = Some demo_result
   \<and> last_query_results cached_world = Some demo_result
   \<and> files (snd (handle_call_tool demo_env ''save-last-results-csv''
                    (Some [(''file_path'', PStr ''/tmp/out.csv'')]) cached_world))
             ''/tmp/out.csv''
     = Some [[PStr ''id'', PStr ''name''], [PInt 1, PStr ''a''], [PInt 2, PStr ''b'']]"
proof -
  let ?a = "Some [(''query'', PStr ''SELECT 1''), (''file_path'', PStr ''/tmp/out.csv'')]"
  let ?h = "handle_call_tool demo_env ''save-last-results-csv''
              (Some [(''file_path'', PStr ''/tmp/out.csv'')]) cached_world"
  note inst = only_execute_query_sets_cache
      [of "''save-csv-file''" demo_env ?a cached_world "PStr ''SELECT 1''"
          demo_result "[(''query'', PStr ''SELECT 1'')]" demo_result "''/tmp/out.csv''"]
  note inst2 = only_execute_query_sets_cache
      [of "''save-csv-file''" demo_env ?a fresh_world "PStr ''SELECT 1''"
          demo_result "[(''query'', PStr ''SELECT 1'')]" demo_result "''/tmp/out.csv''"]
  have q: "client_query demo_env (PStr ''SELECT 1'') [] = Inr demo_result"
    by (simp add: demo_env_def)
  have c: "last_query_results cached_world = Some demo_result"
    by (simp add: cached_world_def demo_rows_dict)
  have 1: "last_query_results (snd (handle_call_tool demo_env ''save-csv-file'' ?a cached_world))
     = last_query_results cached_world"
    using inst by simp
  have 2: "last_query_results
        (snd (handle_call_tool demo_env ''execute-query'' (Some [(''query'', PStr ''SELECT 1'')])
                fresh_world)) = Some demo_result"
    using inst2 q by (simp add: demo_rows_dict)
  have ok: "fst ?h = [TextContent ''Successfully saved 2 rows to /tmp/out.csv'']"
    by (simp add: handle_call_tool_def handle_call_tool_try_def
      call_save_last_results_csv_def falsy_args_def not_in_def subscript_def
      save_last_results_to_csv_file_def write_csv_def cached_world_def demo_rows_dict
      os_path_dirname_def os_makedirs_def open_write_def isdir_def csv_content_def
      returning_def demo_result_def fresh_world_def show_nat_Suc_Suc_0 Let_def)
  have 3: "files (snd ?h)
      = (files cached_world)(''/tmp/out.csv'' \<mapsto>
           csv_content (rs_schema demo_result) (map (map snd) (rs_rows demo_result)))"
    using inst c ok by auto
  have 4: "files (snd ?h) ''/tmp/out.csv''
     = Some [[PStr ''id'', PStr ''name''], [PInt 1, PStr ''a''], [PInt 2, PStr ''b'']]"
    by (simp add: 3 csv_content_def demo_result_def)
  from 1 q 2 c 4 show ?thesis by blast
qed

subsection \<open>Sessions\<close>

lemma handle_request_call:
  "handle_request e s (CallTool nm a) w =
     (CallResult (fst (handle_call_tool e nm a w)), snd (handle_call_tool e nm a w))"
  by (simp split: prod.splits)

lemma handle_request_session: "handle_request e s1 r w = handle_request e s2 r w"
  by (cases r) simp_all

lemma save_last_results_request:
  "last_query_results w1 = Some c \<Longrightarrow>
   handle_request e s (CallTool ''save-last-results-csv'' (Some [(''file_path'', fp)])) w1
     = (case write_csv fp (rs_schema c) (map (map snd) (rs_rows c)) w1 of
          (Inl x, w2) \<Rightarrow> (CallResult [TextContent (''Error: '' @ str_exn x)], w2)
        | (Inr t, w2) \<Rightarrow> (CallResult [TextContent t], w2))"
  by (simp add: handle_call_tool_def handle_call_tool_try_def call_save_last_results_cached
      returning_def split: prod.splits sum.splits)

text \<open>
  C4, as stated, fails: session 1 executes a query, and what \<open>save-last-results-csv\<close>
  answers on session 2 afterwards differs from what it answers on session 2 when session
  1 has done nothing.
\<close>

theorem sessions_not_isolated:
  "fst (handle_request demo_env 2
          (CallTool ''save-last-results-csv'' (Some [(''file_path'', PStr ''/tmp/out.csv'')]))
          (snd (handle_request demo_env 1
                  (CallTool ''execute-query'' (Some [(''query'', PStr ''SELECT 1'')]))
                  fresh_world)))
   \<noteq> fst (handle_request demo_env 2
          (CallTool ''save-last-results-csv'' (Some [(''file_path'', PStr ''/tmp/out.csv'')]))
          fresh_world)"
  by (simp add: handle_call_tool_def handle_call_tool_try_def call_execute_query_def
      call_save_last_results_csv_def falsy_args_def not_in_def subscript_def
      execute_query_def save_last_results_to_csv_file_def write_csv_def
      os_path_dirname_def os_makedirs_def open_write_def isdir_def csv_content_def
      returning_def demo_env_def demo_result_def fresh_world_def show_nat_Suc_Suc_0 Let_def
      dict_of_items_def)

text \<open>
  C4, amended. The cache belongs to the one database object that the handlers of every
  session share. A request is answered, and changes the state, in the same way on whatever
  session it arrives; and after a successful \<open>execute-query\<close> on session \<open>s1\<close> the cache
  holds that query's schema and rows, and \<open>save-last-results-csv\<close> on any session \<open>s2\<close>
  writes exactly those rows (or reports the error of the write).
\<close>

theorem cache_shared_by_all_sessions:
  "handle_request e s1 r w = handle_request e s2 r w
   \<and> (client_query e q [] = Inr rs \<longrightarrow>
        last_query_results
          (snd (handle_request e s1 (CallTool ''execute-query'' (Some [(''query'', q)])) w))
          = Some \<lparr>rs_schema = rs_schema rs, rs_rows = map dict_of_items (rs_rows rs)\<rparr>
        \<and> handle_request e s2
            (CallTool ''save-last-results-csv'' (Some [(''file_path'', fp)]))
            (snd (handle_request e s1 (CallTool ''execute-query'' (Some [(''query'', q)])) w))
          = (case write_csv fp (rs_schema rs) (map (map snd) (map dict_of_items (rs_rows rs)))
                    (snd (handle_request e s1
                            (CallTool ''execute-query'' (Some [(''query'', q)])) w)) of
               (Inl x, w2) \<Rightarrow> (CallResult [TextContent (''Error: '' @ str_exn x)], w2)
             | (Inr t, w2) \<Rightarrow> (CallResult [TextContent t], w2)))"
proof (intro conjI impI)
  show "handle_request e s1 r w = handle_request e s2 r w"
    by (rule handle_request_session)
next
  let ?w1 = "snd (handle_request e s1 (CallTool ''execute-query'' (Some [(''query'', q)])) w)"
  assume q: "client_query e q [] = Inr rs"
  have w1: "?w1 = snd (execute_query e q [] w)"
    by (simp add: handle_request_call handle_call_tool_snd handle_call_tool_try_def
        call_execute_query_arg returning_snd del: handle_request.simps)
  show c: "last_query_results ?w1
      = Some \<lparr>rs_schema = rs_schema rs, rs_rows = map dict_of_items (rs_rows rs)\<rparr>"
    by (simp only: w1 execute_query_cache [OF q])
  show "handle_request e s2
            (CallTool ''save-last-results-csv'' (Some [(''file_path'', fp)])) ?w1
          = (case write_csv fp (rs_schema rs) (map (map snd) (map dict_of_items (rs_rows rs)))
                    ?w1 of
               (Inl x, w2) \<Rightarrow> (CallResult [TextContent (''Error: '' @ str_exn x)], w2)
             | (Inr t, w2) \<Rightarrow> (CallResult [TextContent t], w2))"
    using save_last_results_request [OF c, of e s2 fp] by (simp del: handle_request.simps)
qed

text \<open>
  C4, amended, at a concrete input: session 1 executes \<open>SELECT 1\<close> on a fresh process;
  the cache then holds the demo result, and \<open>save-last-results-csv\<close> on session 2 saves its
  two rows.
\<close>

theorem cache_shared_by_all_sessions_witness:
  "client_query demo_env (PStr ''SELECT 1'') [] = Inr demo_result
   \<and> last_query_results
        (snd (handle_request demo_env 1
                (CallTool ''execute-query'' (Some [(''query'', PStr ''SELECT 1'')])) fresh_world))
      = Some demo_result
   \<and> fst (handle_request demo_env 2
          (CallTool ''save-last-results-csv'' (Some [(''file_path'', PStr ''/tmp/out.csv'')]))
          (snd (handle_request demo_env 1
                  (CallTool ''execute-query'' (Some [(''query'', PStr ''SELECT 1'')]))
                  fresh_world)))
      = CallResult [TextContent ''Successfully saved 2 rows to /tmp/out.csv'']"
proof -
  let ?w1 = "snd (handle_request demo_env 1
                (CallTool ''execute-query'' (Some [(''query'', PStr ''SELECT 1'')])) fresh_world)"
  have q: "client_query demo_env (PStr ''SELECT 1'') [] = Inr demo_result"
    by (simp add: demo_env_def)
  note inst = cache_shared_by_all_sessions
      [of demo_env 1 ListTools fresh_world 2 "PStr ''SELECT 1''" demo_result
          "PStr ''/tmp/out.csv''"]
  have c: "last_query_results ?w1 = Some demo_result"
    using inst q by (simp add: demo_rows_dict del: handle_request.simps)
  have f: "files ?w1 = Map.empty \<and> dirs ?w1 = {}"
    by (simp add: handle_request_call handle_call_tool_def handle_call_tool_try_def
      call_execute_query_def falsy_args_def not_in_def subscript_def execute_query_def
      returning_def demo_env_def fresh_world_def Let_def del: handle_request.simps)
  have w: "fst (write_csv (PStr ''/tmp/out.csv'') (rs_schema demo_result)
             (map (map snd) (rs_rows demo_result)) ?w1)
      = Inr ''Successfully saved 2 rows to /tmp/out.csv''"
    using f by (intro write_demo) simp_all
  have r: "fst (handle_request demo_env 2
          (CallTool ''save-last-results-csv'' (Some [(''file_path'', PStr ''/tmp/out.csv'')])) ?w1)
      = CallResult [TextContent ''Successfully saved 2 rows to /tmp/out.csv'']"
    using inst q w
    by (cases "write_csv (PStr ''/tmp/out.csv'') (rs_schema demo_result)
             (map (map snd) (rs_rows demo_result)) ?w1")
       (simp add: demo_rows_dict del: handle_request.simps)
  from q c r show ?thesis by blast
qed

subsection \<open>save-last-results-csv on an empty cache\<close>

lemma save_last_results_to_csv_file_cache:
  "last_query_results (snd (save_last_results_to_csv_file fp w)) = last_query_results w"
  by (simp add: save_last_results_to_csv_file_def write_csv_cache split: option.splits)

lemma call_save_last_results_csv_cache:
  "last_query_results (snd (call_save_last_results_csv e a w)) = last_query_results w"
  by (simp add: call_save_last_results_csv_def returning_snd
      save_last_results_to_csv_file_cache split: sum.splits)

lemma call_list_tables_state: "snd (call_list_tables e a w) = w"
  by (simp add: call_list_tables_raises)

lemma other_tools_keep_cache:
  "nm \<noteq> ''execute-query'' \<Longrightarrow> nm \<noteq> ''describe-table'' \<Longrightarrow>
   last_query_results (snd (handle_call_tool e nm a w)) = last_query_results w"
  by (simp add: handle_call_tool_snd handle_call_tool_try_def call_list_tables_state
      call_save_csv_file_cache call_save_last_results_csv_cache call_save_csv_auto_cache)

lemma request_keeps_cache:
  "sets_cache r = False \<Longrightarrow>
   last_query_results (snd (handle_request e s r w)) = last_query_results w"
  by (cases r) (simp_all add: sets_cache_def handle_request_call other_tools_keep_cache
      del: handle_request.simps(2))

lemma history_keeps_cache:
  "filter (\<lambda>sr. sets_cache (snd sr)) reqs = [] \<Longrightarrow>
   last_query_results (snd (run_requests e reqs w)) = last_query_results w"
proof (induction reqs arbitrary: w)
  case Nil
  then show ?case by simp
next
  case (Cons sr reqs)
  obtain s r where sr: "sr = (s, r)" by (cases sr)
  from Cons.prems have r: "sets_cache r = False" and rest: "filter (\<lambda>sr. sets_cache (snd sr)) reqs = []"
    by (auto simp add: sr split: if_splits)
  have "snd (run_requests e (sr # reqs) w) = snd (run_requests e reqs (snd (handle_request e s r w)))"
    by (simp add: sr split: prod.splits del: handle_request.simps)
  then show ?case
    using Cons.IH [OF rest, of "snd (handle_request e s r w)"] request_keeps_cache [OF r, of e s w]
    by simp
qed

lemma empty_cache_error:
  "last_query_results w = None \<Longrightarrow>
   handle_call_tool e ''save-last-results-csv'' a w =
     ([TextContent (''Error: '' @
         (if falsy_args a \<or> not_in ''file_path'' a then ''Missing file_path argument''
          else ''No previous query results available. Execute a query first.''))], w)"
  by (simp add: handle_call_tool_def handle_call_tool_try_def call_save_last_results_csv_def
      save_last_results_to_csv_file_def returning_def subscript_def not_in_def falsy_args_def
      split: option.splits)

text \<open>
  C6, as stated, fails: session 2 has made no call at all, session 1 has executed one
  query, and the first \<open>save-last-results-csv\<close> of session 2 reports two saved rows and
  leaves them, under their header, in a file that was not there before.
\<close>

theorem fresh_session_reads_shared_cache:
  "map fst one_query_history = [1]
   \<and> fst (handle_request demo_env 2
        (CallTool ''save-last-results-csv'' (Some [(''file_path'', PStr ''/tmp/out.csv'')]))
        (snd (run_requests demo_env one_query_history fresh_world)))
     = CallResult [TextContent ''Successfully saved 2 rows to /tmp/out.csv'']
   \<and> files (snd (handle_request demo_env 2
        (CallTool ''save-last-results-csv'' (Some [(''file_path'', PStr ''/tmp/out.csv'')]))
        (snd (run_requests demo_env one_query_history fresh_world)))) ''/tmp/out.csv''
     = Some [[PStr ''id'', PStr ''name''], [PInt 1, PStr ''a''], [PInt 2, PStr ''b'']]
   \<and> files (snd (run_requests demo_env one_query_history fresh_world)) ''/tmp/out.csv'' = None"
  by (simp add: one_query_history_def handle_call_tool_def handle_call_tool_try_def
      call_execute_query_def
      call_save_last_results_csv_def falsy_args_def not_in_def subscript_def
      execute_query_def save_last_results_to_csv_file_def write_csv_def
      os_path_dirname_def os_makedirs_def open_write_def isdir_def csv_content_def
      returning_def demo_env_def demo_result_def fresh_world_def show_nat_Suc_Suc_0 Let_def
      dict_of_items_def)

text \<open>
  C6, amended. The cache is the one of the database object that all sessions share. When
  it is empty, \<open>save-last-results-csv\<close> answers a single error block, whatever the
  argument bag: the missing-argument message when \<open>file_path\<close> is not given, the
  no-previous-results message otherwise; the state is unchanged, so no directory is made
  and no file is written. The cache stays empty through any history, on any sessions, of
  requests other than \<open>execute-query\<close> and \<open>describe-table\<close>, so after such a history
  the request is answered in that way on every session.
\<close>

theorem save_last_results_empty_cache:
  "last_query_results w = None \<Longrightarrow>
   handle_call_tool e ''save-last-results-csv'' a w =
     ([TextContent (''Error: '' @
         (if falsy_args a \<or> not_in ''file_path'' a then ''Missing file_path argument''
          else ''No previous query results available. Execute a query first.''))], w)
   \<and> (filter (\<lambda>sr. sets_cache (snd sr)) reqs = [] \<longrightarrow>
        last_query_results (snd (run_requests e reqs w)) = None
        \<and> handle_request e s (CallTool ''save-last-results-csv'' a)
             (snd (run_requests e reqs w)) =
           (CallResult [TextContent (''Error: '' @
              (if falsy_args a \<or> not_in ''file_path'' a then ''Missing file_path argument''
               else ''No previous query results available. Execute a query first.''))],
            snd (run_requests e reqs w)))"
proof (intro conjI impI)
  assume n: "last_query_results w = None"
  show "handle_call_tool e ''save-last-results-csv'' a w =
     ([TextContent (''Error: '' @
         (if falsy_args a \<or> not_in ''file_path'' a then ''Missing file_path argument''
          else ''No previous query results available. Execute a query first.''))], w)"
    by (rule empty_cache_error [OF n])
  assume h: "filter (\<lambda>sr. sets_cache (snd sr)) reqs = []"
  show c: "last_query_results (snd (run_requests e reqs w)) = None"
    using history_keeps_cache [OF h, of e w] n by simp
  show "handle_request e s (CallTool ''save-last-results-csv'' a)
             (snd (run_requests e reqs w)) =
           (CallResult [TextContent (''Error: '' @
              (if falsy_args a \<or> not_in ''file_path'' a then ''Missing file_path argument''
               else ''No previous query results available. Execute a query first.''))],
            snd (run_requests e reqs w))"
    by (simp add: handle_request_call empty_cache_error [OF c] del: handle_request.simps)
qed

text \<open>
  C6, amended, at a concrete input: a process that has run no query is asked to save to a
  path; and the same request on session 2 after session 1 has exported a query with
  \<open>save-csv-file\<close> and asked for the catalog.
\<close>

theorem save_last_results_empty_cache_witness:
  "last_query_results fresh_world = None
   \<and> handle_call_tool demo_env ''save-last-results-csv''
        (Some [(''file_path'', PStr ''/tmp/out.csv'')]) fresh_world
     = ([TextContent ''Error: No previous query results available. Execute a query first.''],
        fresh_world)
   \<and> filter (\<lambda>sr. sets_cache (snd sr))
        [(1::nat, CallTool ''save-csv-file''
               (Some [(''query'', PStr ''SELECT 1''), (''file_path'', PStr ''/tmp/a.csv'')])),
         (1, ListTools)] = []
   \<and> fst (handle_request demo_env 2
        (CallTool ''save-last-results-csv'' (Some [(''file_path'', PStr ''/tmp/out.csv'')]))
        (snd (run_requests demo_env
           [(1, CallTool ''save-csv-file''
               (Some [(''query'', PStr ''SELECT 1''), (''file_path'', PStr ''/tmp/a.csv'')])),
            (1, ListTools)] fresh_world)))
     = CallResult
         [TextContent ''Error: No previous query results available. Execute a query first.'']"
proof -
  let ?a = "Some [(''file_path'', PStr ''/tmp/out.csv'')]"
  let ?h = "[(1::nat, CallTool ''save-csv-file''
               (Some [(''query'', PStr ''SELECT 1''), (''file_path'', PStr ''/tmp/a.csv'')])),
            (1, ListTools)]"
  have n: "last_query_results fresh_world = None" by (simp add: fresh_world_def)
  have f: "filter (\<lambda>sr. sets_cache (snd sr)) ?h = []" by (simp add: sets_cache_def)
  have m: "(if falsy_args ?a \<or> not_in ''file_path'' ?a then ''Missing file_path argument''
          else ''No previous query results available. Execute a query first.'')
       = ''No previous query results available. Execute a query first.''"
    by (simp add: falsy_args_def not_in_def)
  note inst = save_last_results_empty_cache [OF n, of demo_env ?a ?h 2]
  have 1: "handle_call_tool demo_env ''save-last-results-csv'' ?a fresh_world
     = ([TextContent ''Error: No previous query results available. Execute a query first.''],
        fresh_world)"
    using inst by (simp only: m) simp
  have 2: "fst (handle_request demo_env 2 (CallTool ''save-last-results-csv'' ?a)
        (snd (run_requests demo_env ?h fresh_world)))
     = CallResult
         [TextContent ''Error: No previous query results available. Execute a query first.'']"
    using inst f by (simp only: m) (simp del: handle_request.simps run_requests.simps)
  from n 1 f 2 show ?thesis by (intro conjI)
qed

end
